theory Spec2Isabelle
  imports Main
begin

section \<open>Python values handled by ingestion.py\<close>

text \<open>
  The program handles the values that \<^verbatim>\<open>response.json()\<close> produces: None, booleans,
  integers, strings, lists and dicts with string keys. A dict is an association list in
  insertion order (Python dicts keep insertion order, and the CSV header depends on it).
  Numbers are integers: a non-integral JSON number is outside this model; the program
  never inspects a number.
\<close>

datatype pyval =
    PNone
  | PBool bool
  | PInt int
  | PStr string
  | PList "pyval list"
  | PDict "(string \<times> pyval) list"

text \<open>
  The exceptions that matter to the program. \<open>RequestException m\<close> stands for
  \<^verbatim>\<open>requests.exceptions.RequestException\<close> and every subclass of it, with \<open>m\<close> the text
  \<^verbatim>\<open>str(e)\<close>; \<open>OtherException\<close> is any exception that is not an instance of
  RequestException, KeyError or TypeError. The string of a \<open>KeyError\<close> is the missing key,
  the string of a \<open>TypeError\<close> an indicative message.
\<close>

datatype exn =
    RequestException string
  | KeyError string
  | TypeError string
  | OtherException string

subsection \<open>Dict lookup and assignment\<close>

fun dict_get :: "string \<Rightarrow> (string \<times> pyval) list \<Rightarrow> pyval option" where
  "dict_get k [] = None"
| "dict_get k ((k', v) # kvs) = (if k = k' then Some v else dict_get k kvs)"

text \<open>Assigning to an existing key keeps the key's position; a new key goes last.\<close>

fun dict_set :: "string \<Rightarrow> pyval \<Rightarrow> (string \<times> pyval) list \<Rightarrow> (string \<times> pyval) list" where
  "dict_set k v [] = [(k, v)]"
| "dict_set k v ((k', v') # kvs) =
     (if k = k' then (k, v) # kvs else (k', v') # dict_set k v kvs)"

text \<open>\<^verbatim>\<open>obj[key]\<close> with a string key.\<close>

fun py_getitem :: "pyval \<Rightarrow> string \<Rightarrow> exn + pyval" where
  "py_getitem (PDict kvs) k =
     (case dict_get k kvs of None \<Rightarrow> Inl (KeyError k) | Some v \<Rightarrow> Inr v)"
| "py_getitem (PList xs) k = Inl (TypeError ''list indices must be integers or slices, not str'')"
| "py_getitem (PStr s) k = Inl (TypeError ''string indices must be integers, not str'')"
| "py_getitem PNone k = Inl (TypeError ''NoneType object is not subscriptable'')"
| "py_getitem (PBool b) k = Inl (TypeError ''bool object is not subscriptable'')"
| "py_getitem (PInt i) k = Inl (TypeError ''int object is not subscriptable'')"

text \<open>\<^verbatim>\<open>obj[key] = value\<close> with a string key; the updated object is returned.\<close>

fun py_setitem :: "pyval \<Rightarrow> string \<Rightarrow> pyval \<Rightarrow> exn + pyval" where
  "py_setitem (PDict kvs) k v = Inr (PDict (dict_set k v kvs))"
| "py_setitem (PList xs) k v = Inl (TypeError ''list indices must be integers or slices, not str'')"
| "py_setitem (PStr s) k v = Inl (TypeError ''str object does not support item assignment'')"
| "py_setitem PNone k v = Inl (TypeError ''NoneType object does not support item assignment'')"
| "py_setitem (PBool b) k v = Inl (TypeError ''bool object does not support item assignment'')"
| "py_setitem (PInt i) k v = Inl (TypeError ''int object does not support item assignment'')"

text \<open>\<^verbatim>\<open>a + b\<close>: lists and strings concatenate, booleans and integers add as integers.\<close>

fun py_add :: "pyval \<Rightarrow> pyval \<Rightarrow> exn + pyval" where
  "py_add (PList xs) (PList ys) = Inr (PList (xs @ ys))"
| "py_add (PStr s) (PStr t) = Inr (PStr (s @ t))"
| "py_add (PInt i) (PInt j) = Inr (PInt (i + j))"
| "py_add (PInt i) (PBool c) = Inr (PInt (i + (if c then 1 else 0)))"
| "py_add (PBool b) (PInt j) = Inr (PInt ((if b then 1 else 0) + j))"
| "py_add (PBool b) (PBool c) = Inr (PInt ((if b then 1 else 0) + (if c then 1 else 0)))"
| "py_add a b = Inl (TypeError ''unsupported operand type(s) for +'')"

section \<open>The outside world\<close>

text \<open>
  A request as \<^verbatim>\<open>requests.get\<close> receives it. The transport is the environment of the
  program: for the n-th request issued (counting from 0) it decides what
  \<^verbatim>\<open>requests.get(...)\<close> followed by \<^verbatim>\<open>response.json()\<close> does: the GET raises, the GET
  returns and the decoding raises, or the decoding returns a value. The program reads
  nothing else of the response (no status code, no \<^verbatim>\<open>raise_for_status\<close>).
\<close>

record request =
  url :: string
  headers :: "(string \<times> string) list"
  params :: "(string \<times> pyval) list"

datatype outcome =
    GetRaises exn
  | JsonRaises exn
  | JsonBody pyval

type_synonym transport = "nat \<Rightarrow> request \<Rightarrow> outcome"

text \<open>The process environment, read by \<^verbatim>\<open>os.getenv\<close> (None when the variable is unset).\<close>

type_synonym environ = "string \<Rightarrow> string option"

text \<open>What the program has done so far: the requests issued and the lines printed.\<close>

record world =
  calls :: "request list"
  stdout :: "string list"

section \<open>retrieve_lucca_data\<close>

text \<open>The headers dict of lines 26-27; an f-string renders None as the text None.\<close>

definition lucca_headers :: "environ \<Rightarrow> (string \<times> string) list" where
  "lucca_headers env =
     [(''Accept'', ''application/json''),
      (''Authorization'', ''lucca application='' @
         (case env ''TOKEN_API_LUCCA'' of None \<Rightarrow> ''None'' | Some t \<Rightarrow> t))]"

text \<open>
  The except clause of lines 37-39: an instance of RequestException is printed and
  replaced by the empty list; every other exception propagates.
\<close>

fun except_clause :: "exn \<Rightarrow> world \<Rightarrow> (exn + pyval) \<times> world" where
  "except_clause (RequestException m) w =
     (Inr (PList []), w\<lparr>stdout := stdout w @ [''An error occurred: '' @ m]\<rparr>)"
| "except_clause e w = (Inl e, w)"

text \<open>
  Lines 23-39. Everything from the concatenation \<^verbatim>\<open>url_api_lucca+url_suffix\<close> on is
  inside the try block; with URL_API_LUCCA unset the concatenation raises TypeError
  before any request is issued.
\<close>

definition retrieve_lucca_data ::
  "transport \<Rightarrow> environ \<Rightarrow> string \<Rightarrow> (string \<times> pyval) list \<Rightarrow> world \<Rightarrow> (exn + pyval) \<times> world" where
  "retrieve_lucca_data tr env url_suffix ps w =
     (case env ''URL_API_LUCCA'' of
        None \<Rightarrow> except_clause (TypeError ''unsupported operand type(s) for +'') w
      | Some url_api_lucca \<Rightarrow>
          (let req = \<lparr>url = url_api_lucca @ url_suffix, headers = lucca_headers env, params = ps\<rparr>;
               w1 = w\<lparr>calls := calls w @ [req]\<rparr>
           in case tr (length (calls w)) req of
                GetRaises e \<Rightarrow> except_clause e w1
              | JsonRaises e \<Rightarrow> except_clause e w1
              | JsonBody data_json \<Rightarrow>
                  (case py_getitem data_json ''data'' of
                     Inl e \<Rightarrow> except_clause e w1
                   | Inr d \<Rightarrow>
                       (case py_getitem d ''items'' of
                          Inl e \<Rightarrow> except_clause e w1
                        | Inr data \<Rightarrow> (Inr data, w1)))))"

section \<open>create_employees_list\<close>

text \<open>
  The loop body, line 86: \<^verbatim>\<open>employee["department"] = employee["department"]["name"]\<close>.
  The right-hand side is evaluated first.
\<close>

definition flatten_department :: "pyval \<Rightarrow> exn + pyval" where
  "flatten_department employee =
     (case py_getitem employee ''department'' of
        Inl e \<Rightarrow> Inl e
      | Inr d \<Rightarrow>
          (case py_getitem d ''name'' of
             Inl e \<Rightarrow> Inl e
           | Inr v \<Rightarrow> py_setitem employee ''department'' v))"

text \<open>The for loop of lines 85-86 over the elements, stopping at the first exception.\<close>

fun for_employees :: "pyval list \<Rightarrow> exn + pyval list" where
  "for_employees [] = Inr []"
| "for_employees (employee # rest) =
     (case flatten_department employee of
        Inl e \<Rightarrow> Inl e
      | Inr employee' \<Rightarrow>
          (case for_employees rest of
             Inl e \<Rightarrow> Inl e
           | Inr rest' \<Rightarrow> Inr (employee' # rest')))"

text \<open>
  Lines 85-88 on whatever \<^verbatim>\<open>employees_list\<close> is. A list is returned with its elements
  updated in place. Iterating a string yields its one-character strings and iterating a
  dict its keys: these are temporaries, so the object itself is returned. Every other
  value is not iterable.

  The elements of a list decoded from JSON are distinct objects, none referenced from
  anywhere else, so updating one in place changes no other and values model them.
\<close>

fun flatten_all :: "pyval \<Rightarrow> exn + pyval" where
  "flatten_all (PList es) =
     (case for_employees es of Inl e \<Rightarrow> Inl e | Inr es' \<Rightarrow> Inr (PList es'))"
| "flatten_all (PStr s) =
     (case for_employees (map (\<lambda>c. PStr [c]) s) of Inl e \<Rightarrow> Inl e | Inr _ \<Rightarrow> Inr (PStr s))"
| "flatten_all (PDict kvs) =
     (case for_employees (map (\<lambda>kv. PStr (fst kv)) kvs) of
        Inl e \<Rightarrow> Inl e
      | Inr _ \<Rightarrow> Inr (PDict kvs))"
| "flatten_all PNone = Inl (TypeError ''NoneType object is not iterable'')"
| "flatten_all (PBool b) = Inl (TypeError ''bool object is not iterable'')"
| "flatten_all (PInt i) = Inl (TypeError ''int object is not iterable'')"

definition user_suffix :: string where
  "user_suffix = ''/api/v3/users''"

text \<open>The two params dicts of lines 75 and 79-80, in the key order the source writes.\<close>

definition current_params :: "pyval \<Rightarrow> (string \<times> pyval) list" where
  "current_params flds = [(''fields'', flds)]"

definition former_params :: "pyval \<Rightarrow> (string \<times> pyval) list" where
  "former_params flds = [(''dtContractEnd'', PStr ''notequal,null''), (''fields'', flds)]"

definition create_employees_list ::
  "transport \<Rightarrow> environ \<Rightarrow> pyval \<Rightarrow> world \<Rightarrow> (exn + pyval) \<times> world" where
  "create_employees_list tr env flds w =
     (case retrieve_lucca_data tr env user_suffix (current_params flds) w of
        (Inl e, w1) \<Rightarrow> (Inl e, w1)
      | (Inr current_employees_list, w1) \<Rightarrow>
          (case retrieve_lucca_data tr env user_suffix (former_params flds) w1 of
             (Inl e, w2) \<Rightarrow> (Inl e, w2)
           | (Inr former_employees_list, w2) \<Rightarrow>
               (case py_add current_employees_list former_employees_list of
                  Inl e \<Rightarrow> (Inl e, w2)
                | Inr employees_list \<Rightarrow> (flatten_all employees_list, w2))))"

section \<open>create_departments_list\<close>

definition departments_suffix :: string where
  "departments_suffix = ''/api/v3/departments''"

definition create_departments_list ::
  "transport \<Rightarrow> environ \<Rightarrow> pyval \<Rightarrow> world \<Rightarrow> (exn + pyval) \<times> world" where
  "create_departments_list tr env flds w =
     retrieve_lucca_data tr env departments_suffix [(''fields'', flds)] w"

section \<open>save_to_csv\<close>

text \<open>
  The source builds a table with \<^verbatim>\<open>pandas.DataFrame(data)\<close> and writes it with
  \<^verbatim>\<open>df.to_csv(name, index=False)\<close>. Both are library code, not in src/, and are modelled
  from section 4.4 of the spec: the column headers are the union of the observed keys in
  insertion order; there is one header row, then one row per record, with the empty string
  for a column the record lacks and every value stringified; the destination is
  overwritten. The stringification of a value is a parameter \<open>str_of\<close>.
\<close>

text \<open>
  Modelled from the spec: the column order of \<^verbatim>\<open>pandas.DataFrame\<close> (not in src/), the
  union of the keys in the order of their first appearance. \<open>add_keys\<close> appends the keys
  of one record that have not been seen yet.
\<close>

fun add_keys :: "string list \<Rightarrow> string list \<Rightarrow> string list" where
  "add_keys seen [] = seen"
| "add_keys seen (k # ks) = add_keys (if k \<in> set seen then seen else seen @ [k]) ks"

text \<open>
  Modelled from the spec: the columns of \<^verbatim>\<open>pandas.DataFrame\<close> (not in src/) for a list of
  records, the keys of the first record, then the new keys of the second, and so on.
\<close>

definition union_keys :: "(string \<times> pyval) list list \<Rightarrow> string list" where
  "union_keys records = foldl add_keys [] (map (map fst) records)"

text \<open>
  Modelled from the spec: the table \<^verbatim>\<open>pandas.DataFrame\<close> (not in src/) builds from a list
  of records, one row per record, a cell being None where the record lacks the column.
\<close>

record dataframe =
  columns :: "string list"
  cells :: "pyval option list list"

text \<open>
  Modelled from the spec: the constructor \<^verbatim>\<open>pandas.DataFrame\<close> (not in src/) on a list of
  records.
\<close>

definition DataFrame :: "(string \<times> pyval) list list \<Rightarrow> dataframe" where
  "DataFrame records =
     \<lparr>columns = union_keys records,
      cells = map (\<lambda>r. map (\<lambda>c. dict_get c r) (union_keys records)) records\<rparr>"

text \<open>
  Modelled from the spec: the rows \<^verbatim>\<open>DataFrame.to_csv\<close> (not in src/) writes, the header
  first, a missing cell as the empty string. With \<open>index\<close> set, a column of row numbers,
  headed by the empty string, comes first; the source passes \<^verbatim>\<open>index=False\<close>.
\<close>

definition to_csv_rows :: "(pyval \<Rightarrow> string) \<Rightarrow> bool \<Rightarrow> dataframe \<Rightarrow> string list list" where
  "to_csv_rows str_of index df =
     ((if index then [''''] else []) @ columns df) #
     map (\<lambda>(i, row).
            (if index then [str_of (PInt (int i))] else []) @
            map (\<lambda>cell. case cell of None \<Rightarrow> '''' | Some v \<Rightarrow> str_of v) row)
         (zip [0 ..< length (cells df)] (cells df))"

text \<open>
  Modelled from the spec: the text of a row as \<^verbatim>\<open>DataFrame.to_csv\<close> (not in src/) writes
  it, comma-delimited with standard CSV escaping. A field that holds a comma, a double
  quote or a line break is quoted, its quotes doubled; the fields are joined by commas.
\<close>

definition csv_field :: "string \<Rightarrow> string" where
  "csv_field s =
     (if CHR '','' \<in> set s \<or> CHR 0x22 \<in> set s \<or> CHR 0x0A \<in> set s \<or> CHR 0x0D \<in> set s
      then [CHR 0x22] @ concat (map (\<lambda>c. if c = CHR 0x22 then [c, c] else [c]) s) @ [CHR 0x22]
      else s)"

text \<open>
  Modelled from the spec: the comma delimiter of \<^verbatim>\<open>DataFrame.to_csv\<close> (not in src/).
\<close>

fun join_comma :: "string list \<Rightarrow> string" where
  "join_comma [] = []"
| "join_comma [x] = x"
| "join_comma (x # y # ys) = x @ '','' @ join_comma (y # ys)"

text \<open>
  Modelled from the spec: one line of the file \<^verbatim>\<open>DataFrame.to_csv\<close> (not in src/) writes.
\<close>

definition csv_line :: "string list \<Rightarrow> string" where
  "csv_line fields_of_row = join_comma (map csv_field fields_of_row)"

text \<open>
  Lines 54-55: the table of \<open>data\<close> is written to \<open>name\<close> with \<^verbatim>\<open>index=False\<close>,
  replacing what the file held. The file system maps a file name to the lines of the file.
\<close>

definition save_to_csv ::
  "(pyval \<Rightarrow> string) \<Rightarrow> (string \<times> pyval) list list \<Rightarrow> string \<Rightarrow>
   (string \<rightharpoonup> string list) \<Rightarrow> (string \<rightharpoonup> string list)" where
  "save_to_csv str_of data name fs =
     (let df = DataFrame data in fs(name \<mapsto> map csv_line (to_csv_rows str_of False df)))"

section \<open>Concrete inputs\<close>

text \<open>The inputs at which the theorems below are instantiated.\<close>

definition demo_env :: environ where
  "demo_env = [''URL_API_LUCCA'' \<mapsto> ''https://example.ilucca.net'', ''TOKEN_API_LUCCA'' \<mapsto> ''secret'']"

definition demo_fields :: pyval where
  "demo_fields = PList [PStr ''firstName'', PStr ''department'']"

definition users_request :: "(string \<times> pyval) list \<Rightarrow> request" where
  "users_request ps =
     \<lparr>url = ''https://example.ilucca.net/api/v3/users'', headers = lucca_headers demo_env, params = ps\<rparr>"

definition world0 :: world where
  "world0 = \<lparr>calls = [], stdout = []\<rparr>"

definition world1 :: world where
  "world1 = \<lparr>calls = [users_request (current_params demo_fields)], stdout = []\<rparr>"

definition world2 :: world where
  "world2 = \<lparr>calls = [users_request (current_params demo_fields),
                      users_request (former_params demo_fields)], stdout = []\<rparr>"

definition ann :: pyval where
  "ann = PDict [(''firstName'', PStr ''Ann''), (''department'', PDict [(''name'', PStr ''Eng'')])]"

definition ann_flat :: pyval where
  "ann_flat = PDict [(''firstName'', PStr ''Ann''), (''department'', PStr ''Eng'')]"

definition bob :: pyval where
  "bob = PDict [(''department'', PDict [(''name'', PStr ''Ops''), (''id'', PInt 7)]),
                (''firstName'', PStr ''Bob'')]"

definition bob_flat :: pyval where
  "bob_flat = PDict [(''department'', PStr ''Ops''), (''firstName'', PStr ''Bob'')]"


definition dee :: pyval where
  "dee = PDict [(''department'', PDict [(''name'', PDict [(''name'', PStr ''Eng'')])])]"


definition demo_departments :: pyval where
  "demo_departments = PList [PDict [(''name'', PStr ''Eng'')], PDict [(''name'', PStr ''Ops'')]]"

text \<open>A transport that answers the first request with one item list and every later one with another.\<close>

definition two_answers :: "pyval \<Rightarrow> pyval \<Rightarrow> transport" where
  "two_answers first_items later_items =
     (\<lambda>n req. if n = 0 then JsonBody (PDict [(''data'', PDict [(''items'', first_items)])])
               else JsonBody (PDict [(''data'', PDict [(''items'', later_items)])]))"

section \<open>Lemmas\<close>

subsection \<open>Dicts\<close>

lemma dict_get_size: "dict_get k kvs = Some v \<Longrightarrow> size v < size (PDict kvs)"
  by (induction kvs) (auto split: if_splits)

lemma dict_get_neq: "dict_get k kvs = Some v \<Longrightarrow> v \<noteq> PDict kvs"
  using dict_get_size by blast

lemma dict_get_dict_set_same: "dict_get k (dict_set k v kvs) = Some v"
  by (induction kvs) auto

lemma dict_get_dict_set_other: "k' \<noteq> k \<Longrightarrow> dict_get k' (dict_set k v kvs) = dict_get k' kvs"
  by (induction kvs) auto

lemma keys_dict_set: "dict_get k kvs = Some u \<Longrightarrow> map fst (dict_set k v kvs) = map fst kvs"
  by (induction kvs) (auto split: if_splits)

lemma py_getitem_Inr: "py_getitem x k = Inr v \<longleftrightarrow> (\<exists>kvs. x = PDict kvs \<and> dict_get k kvs = Some v)"
  by (cases x) (auto split: option.splits)


subsection \<open>The loop\<close>

lemma flatten_department_Inr:
  "flatten_department e = Inr e' \<longleftrightarrow>
     (\<exists>kvs d v. e = PDict kvs \<and> dict_get ''department'' kvs = Some (PDict d) \<and>
        dict_get ''name'' d = Some v \<and> e' = PDict (dict_set ''department'' v kvs))"
  unfolding flatten_department_def
  by (auto simp: py_getitem_Inr split: sum.splits)


lemma for_employees_Inr:
  "for_employees es = Inr es' \<longleftrightarrow> list_all2 (\<lambda>e e'. flatten_department e = Inr e') es es'"
proof (induction es arbitrary: es')
  case Nil
  show ?case by auto
next
  case (Cons a es)
  show ?case
    by (cases "flatten_department a"; cases "for_employees es")
       (auto simp: list_all2_Cons1 Cons.IH [symmetric])
qed


subsection \<open>The two fetches\<close>

lemma except_clause_calls: "calls (snd (except_clause e w)) = calls w"
  by (cases e) simp_all

lemma retrieve_lucca_data_calls:
  assumes "env ''URL_API_LUCCA'' = Some base"
  shows "calls (snd (retrieve_lucca_data tr env url_suffix ps w)) =
           calls w @ [\<lparr>url = base @ url_suffix, headers = lucca_headers env, params = ps\<rparr>]"
  using assms
  by (simp add: retrieve_lucca_data_def Let_def except_clause_calls split: outcome.splits sum.splits)

lemma create_employees_list_lists:
  assumes "retrieve_lucca_data tr env user_suffix (current_params flds) w = (Inr (PList cs), w1)"
      and "retrieve_lucca_data tr env user_suffix (former_params flds) w1 = (Inr (PList fs), w2)"
  shows "create_employees_list tr env flds w =
           (case for_employees (cs @ fs) of Inl e \<Rightarrow> Inl e | Inr es' \<Rightarrow> Inr (PList es'), w2)"
  using assms by (simp add: create_employees_list_def)

lemma create_employees_list_returns:
  assumes "retrieve_lucca_data tr env user_suffix (current_params flds) w = (Inr (PList cs), w1)"
      and "retrieve_lucca_data tr env user_suffix (former_params flds) w1 = (Inr (PList fs), w2)"
      and "create_employees_list tr env flds w = (Inr out, w')"
  shows "\<exists>es'. out = PList es' \<and> w' = w2 \<and>
           list_all2 (\<lambda>e e'. flatten_department e = Inr e') (cs @ fs) es'"
proof -
  from create_employees_list_lists [OF assms(1,2)] assms(3)
  have "(case for_employees (cs @ fs) of Inl e \<Rightarrow> Inl e | Inr es' \<Rightarrow> Inr (PList es'), w2) = (Inr out, w')"
    by simp
  then obtain es' where "for_employees (cs @ fs) = Inr es'" "out = PList es'" "w' = w2"
    by (auto split: sum.splits)
  then show ?thesis by (auto simp: for_employees_Inr)
qed

subsection \<open>The concrete inputs\<close>

lemma demo_env_url: "demo_env ''URL_API_LUCCA'' = Some ''https://example.ilucca.net''"
  by (simp add: demo_env_def)

lemma two_answers_fetch1:
  "retrieve_lucca_data (two_answers a b) demo_env user_suffix (current_params demo_fields) world0 =
     (Inr a, world1)"
  by (simp add: retrieve_lucca_data_def Let_def demo_env_url two_answers_def world0_def world1_def
      users_request_def user_suffix_def)

lemma two_answers_fetch2:
  "retrieve_lucca_data (two_answers a b) demo_env user_suffix (former_params demo_fields) world1 =
     (Inr b, world2)"
  by (simp add: retrieve_lucca_data_def Let_def demo_env_url two_answers_def world1_def world2_def
      users_request_def user_suffix_def)

lemma flatten_ann: "flatten_department ann = Inr ann_flat"
  by (simp add: flatten_department_def ann_def ann_flat_def)

lemma flatten_bob: "flatten_department bob = Inr bob_flat"
  by (simp add: flatten_department_def bob_def bob_flat_def)

lemma create_ann_bob:
  "create_employees_list (two_answers (PList [ann]) (PList [bob])) demo_env demo_fields world0 =
     (Inr (PList [ann_flat, bob_flat]), world2)"
  by (simp add: create_employees_list_lists [OF two_answers_fetch1 two_answers_fetch2]
      flatten_ann flatten_bob)

section \<open>The fetch client\<close>

text \<open>
  What the except clause lets through: with URL_API_LUCCA unset no request is issued and
  the TypeError of the concatenation propagates; an exception of the transport that is not
  a RequestException propagates; a body or a \<^verbatim>\<open>data\<close> value that is not a mapping gives a
  TypeError, which propagates as well.
\<close>

lemma retrieve_lucca_data_no_url:
  assumes "env ''URL_API_LUCCA'' = None"
  shows "retrieve_lucca_data tr env url_suffix ps w =
           (Inl (TypeError ''unsupported operand type(s) for +''), w)"
  using assms by (simp add: retrieve_lucca_data_def)

lemma retrieve_lucca_data_propagates:
  assumes "env ''URL_API_LUCCA'' = Some base"
      and "tr (length (calls w)) \<lparr>url = base @ url_suffix, headers = lucca_headers env, params = ps\<rparr>
             = GetRaises e \<or>
           tr (length (calls w)) \<lparr>url = base @ url_suffix, headers = lucca_headers env, params = ps\<rparr>
             = JsonRaises e"
      and "\<forall>m. e \<noteq> RequestException m"
  shows "retrieve_lucca_data tr env url_suffix ps w =
           (Inl e,
            w\<lparr>calls := calls w @ [\<lparr>url = base @ url_suffix, headers = lucca_headers env, params = ps\<rparr>]\<rparr>)"
  using assms by (cases e) (auto simp: retrieve_lucca_data_def Let_def)

lemma retrieve_lucca_data_not_a_mapping:
  assumes "env ''URL_API_LUCCA'' = Some base"
      and "tr (length (calls w)) \<lparr>url = base @ url_suffix, headers = lucca_headers env, params = ps\<rparr>
             = JsonBody body"
      and "(\<forall>kvs. body \<noteq> PDict kvs) \<or>
           (\<exists>d. py_getitem body ''data'' = Inr d \<and> (\<forall>kvs. d \<noteq> PDict kvs))"
  shows "\<exists>m. retrieve_lucca_data tr env url_suffix ps w =
           (Inl (TypeError m),
            w\<lparr>calls := calls w @ [\<lparr>url = base @ url_suffix, headers = lucca_headers env, params = ps\<rparr>]\<rparr>)"
proof -
  from assms(3) show ?thesis
  proof
    assume "\<forall>kvs. body \<noteq> PDict kvs"
    then obtain m where "py_getitem body ''data'' = Inl (TypeError m)"
      by (cases body) auto
    with assms(1,2) show ?thesis by (simp add: retrieve_lucca_data_def Let_def)
  next
    assume "\<exists>d. py_getitem body ''data'' = Inr d \<and> (\<forall>kvs. d \<noteq> PDict kvs)"
    then obtain d where d: "py_getitem body ''data'' = Inr d" and "\<forall>kvs. d \<noteq> PDict kvs"
      by blast
    then obtain m where "py_getitem d ''items'' = Inl (TypeError m)"
      by (cases d) auto
    with assms(1,2) d show ?thesis by (simp add: retrieve_lucca_data_def Let_def)
  qed
qed

text \<open>
  Claim C1, as stated: whenever the transport raises an exception, retrieve_lucca_data
  catches it, prints a diagnostic and returns the empty list; it never raises.
  The except clause names \<^verbatim>\<open>requests.exceptions.RequestException\<close>, so this holds for
  that class and its subclasses only. As amended: with URL_API_LUCCA set, when the GET or
  the decoding of the response raises a RequestException with text \<open>m\<close>, the request has
  been issued, the line \<^verbatim>\<open>An error occurred: m\<close> is printed and the empty list is returned.
\<close>

theorem retrieve_lucca_data_degrades:
  assumes "env ''URL_API_LUCCA'' = Some base"
      and "tr (length (calls w)) \<lparr>url = base @ url_suffix, headers = lucca_headers env, params = ps\<rparr>
             = GetRaises (RequestException m) \<or>
           tr (length (calls w)) \<lparr>url = base @ url_suffix, headers = lucca_headers env, params = ps\<rparr>
             = JsonRaises (RequestException m)"
  shows "retrieve_lucca_data tr env url_suffix ps w =
           (Inr (PList []),
            w\<lparr>calls := calls w @ [\<lparr>url = base @ url_suffix, headers = lucca_headers env, params = ps\<rparr>],
              stdout := stdout w @ [''An error occurred: '' @ m]\<rparr>)"
  using assms by (auto simp: retrieve_lucca_data_def Let_def)

theorem retrieve_lucca_data_degrades_witness:
  "demo_env ''URL_API_LUCCA'' = Some ''https://example.ilucca.net'' \<and>
   retrieve_lucca_data (\<lambda>n req. GetRaises (RequestException ''connection refused'')) demo_env
     ''/api/v3/users'' (current_params demo_fields) world0 =
   (Inr (PList []),
    world0\<lparr>calls := calls world0 @
        [\<lparr>url = ''https://example.ilucca.net'' @ ''/api/v3/users'', headers = lucca_headers demo_env,
          params = current_params demo_fields\<rparr>],
      stdout := stdout world0 @ [''An error occurred: '' @ ''connection refused'']\<rparr>)"
  using retrieve_lucca_data_degrades [where env = demo_env and base = "''https://example.ilucca.net''"
      and tr = "\<lambda>n req. GetRaises (RequestException ''connection refused'')"
      and m = "''connection refused''" and w = world0 and url_suffix = "''/api/v3/users''"
      and ps = "current_params demo_fields"]
    demo_env_url
  by simp

text \<open>
  A transport that raises an exception of another class: the exception propagates to
  the caller and nothing is printed.
\<close>

theorem retrieve_lucca_data_other_exception_counterexample:
  "retrieve_lucca_data (\<lambda>n req. GetRaises (OtherException ''injected fault'')) demo_env
     user_suffix (current_params demo_fields) world0 =
   (Inl (OtherException ''injected fault''), world1)"
  by (simp add: retrieve_lucca_data_def Let_def demo_env_url world0_def world1_def
      users_request_def user_suffix_def)

text \<open>
  Claim C10: when the transport answers and the body decodes to a JSON object that has
  no key \<^verbatim>\<open>data\<close>, or whose \<^verbatim>\<open>data\<close> is an object with no key \<^verbatim>\<open>items\<close>,
  retrieve_lucca_data raises KeyError (for the key that is missing); the except clause
  does not catch it, nothing is printed, and the request has been issued.
\<close>

theorem retrieve_lucca_data_envelope_mismatch:
  assumes "env ''URL_API_LUCCA'' = Some base"
      and "tr (length (calls w)) \<lparr>url = base @ url_suffix, headers = lucca_headers env, params = ps\<rparr>
             = JsonBody (PDict kvs)"
      and "dict_get ''data'' kvs = None \<or>
           (\<exists>d. dict_get ''data'' kvs = Some (PDict d) \<and> dict_get ''items'' d = None)"
  shows "retrieve_lucca_data tr env url_suffix ps w =
           (Inl (KeyError (if dict_get ''data'' kvs = None then ''data'' else ''items'')),
            w\<lparr>calls := calls w @ [\<lparr>url = base @ url_suffix, headers = lucca_headers env, params = ps\<rparr>]\<rparr>)"
  using assms by (auto simp: retrieve_lucca_data_def Let_def)

theorem retrieve_lucca_data_envelope_mismatch_witness:
  "demo_env ''URL_API_LUCCA'' = Some ''https://example.ilucca.net'' \<and>
   dict_get ''data'' [(''Message'', PStr ''Unauthorized'')] = None \<and>
   retrieve_lucca_data (\<lambda>n req. JsonBody (PDict [(''Message'', PStr ''Unauthorized'')])) demo_env
     ''/api/v3/users'' (current_params demo_fields) world0 =
   (Inl (KeyError ''data''),
    world0\<lparr>calls := calls world0 @
        [\<lparr>url = ''https://example.ilucca.net'' @ ''/api/v3/users'', headers = lucca_headers demo_env,
          params = current_params demo_fields\<rparr>]\<rparr>)"
  using retrieve_lucca_data_envelope_mismatch [where env = demo_env
      and base = "''https://example.ilucca.net''"
      and tr = "\<lambda>n req. JsonBody (PDict [(''Message'', PStr ''Unauthorized'')])"
      and kvs = "[(''Message'', PStr ''Unauthorized'')]" and w = world0
      and url_suffix = "''/api/v3/users''" and ps = "current_params demo_fields"]
    demo_env_url
  by simp

section \<open>The employees builder\<close>

text \<open>
  Claim C4: when both fetches return lists and create_employees_list returns, its result
  is a list \<open>cs' @ fs'\<close> where \<open>cs'\<close> holds, position by position, the flattened records of
  the first fetch and \<open>fs'\<close> those of the second: every record of the first fetch comes
  before every record of the second, each fetch in its own order.
\<close>

theorem create_employees_list_order:
  assumes "retrieve_lucca_data tr env user_suffix (current_params flds) w = (Inr (PList cs), w1)"
      and "retrieve_lucca_data tr env user_suffix (former_params flds) w1 = (Inr (PList fs), w2)"
      and "create_employees_list tr env flds w = (Inr out, w')"
  shows "\<exists>cs' fs'. out = PList (cs' @ fs') \<and>
           list_all2 (\<lambda>e e'. flatten_department e = Inr e') cs cs' \<and>
           list_all2 (\<lambda>e e'. flatten_department e = Inr e') fs fs'"
proof -
  from create_employees_list_returns [OF assms] obtain es' where
    "out = PList es'" and "list_all2 (\<lambda>e e'. flatten_department e = Inr e') (cs @ fs) es'"
    by blast
  then show ?thesis by (auto simp: list_all2_append1)
qed

theorem create_employees_list_order_witness:
  "retrieve_lucca_data (two_answers (PList [ann]) (PList [bob])) demo_env user_suffix
     (current_params demo_fields) world0 = (Inr (PList [ann]), world1) \<and>
   retrieve_lucca_data (two_answers (PList [ann]) (PList [bob])) demo_env user_suffix
     (former_params demo_fields) world1 = (Inr (PList [bob]), world2) \<and>
   create_employees_list (two_answers (PList [ann]) (PList [bob])) demo_env demo_fields world0 =
     (Inr (PList [ann_flat, bob_flat]), world2) \<and>
   (\<exists>cs' fs'. PList [ann_flat, bob_flat] = PList (cs' @ fs') \<and>
      list_all2 (\<lambda>e e'. flatten_department e = Inr e') [ann] cs' \<and>
      list_all2 (\<lambda>e e'. flatten_department e = Inr e') [bob] fs')"
  using create_employees_list_order [OF two_answers_fetch1 two_answers_fetch2 create_ann_bob]
    two_answers_fetch1 two_answers_fetch2 create_ann_bob
  by blast

text \<open>
  Claim C9: when both fetches return lists and create_employees_list returns, every output
  record has the keys of the fetched record at the same position, in the same order, and
  every key other than \<^verbatim>\<open>department\<close> has the value it had.
\<close>

theorem create_employees_list_frame:
  assumes "retrieve_lucca_data tr env user_suffix (current_params flds) w = (Inr (PList cs), w1)"
      and "retrieve_lucca_data tr env user_suffix (former_params flds) w1 = (Inr (PList fs), w2)"
      and "create_employees_list tr env flds w = (Inr out, w')"
  shows "\<exists>es'. out = PList es' \<and>
           list_all2 (\<lambda>e e'. \<exists>kvs kvs'. e = PDict kvs \<and> e' = PDict kvs' \<and>
              map fst kvs' = map fst kvs \<and>
              (\<forall>k. k \<noteq> ''department'' \<longrightarrow> dict_get k kvs' = dict_get k kvs)) (cs @ fs) es'"
proof -
  from create_employees_list_returns [OF assms] obtain es' where
    out: "out = PList es'" and
    all: "list_all2 (\<lambda>e e'. flatten_department e = Inr e') (cs @ fs) es'"
    by blast
  have "list_all2 (\<lambda>e e'. \<exists>kvs kvs'. e = PDict kvs \<and> e' = PDict kvs' \<and>
              map fst kvs' = map fst kvs \<and>
              (\<forall>k. k \<noteq> ''department'' \<longrightarrow> dict_get k kvs' = dict_get k kvs)) (cs @ fs) es'"
    using all
  proof (rule list_all2_mono)
    fix e e'
    assume "flatten_department e = Inr e'"
    then obtain kvs d v where "e = PDict kvs" "dict_get ''department'' kvs = Some (PDict d)"
      "e' = PDict (dict_set ''department'' v kvs)"
      by (auto simp: flatten_department_Inr)
    then show "\<exists>kvs kvs'. e = PDict kvs \<and> e' = PDict kvs' \<and> map fst kvs' = map fst kvs \<and>
              (\<forall>k. k \<noteq> ''department'' \<longrightarrow> dict_get k kvs' = dict_get k kvs)"
      by (simp add: keys_dict_set dict_get_dict_set_other)
  qed
  with out show ?thesis by blast
qed

theorem create_employees_list_frame_witness:
  "retrieve_lucca_data (two_answers (PList [ann]) (PList [bob])) demo_env user_suffix
     (current_params demo_fields) world0 = (Inr (PList [ann]), world1) \<and>
   retrieve_lucca_data (two_answers (PList [ann]) (PList [bob])) demo_env user_suffix
     (former_params demo_fields) world1 = (Inr (PList [bob]), world2) \<and>
   create_employees_list (two_answers (PList [ann]) (PList [bob])) demo_env demo_fields world0 =
     (Inr (PList [ann_flat, bob_flat]), world2) \<and>
   (\<exists>es'. PList [ann_flat, bob_flat] = PList es' \<and>
      list_all2 (\<lambda>e e'. \<exists>kvs kvs'. e = PDict kvs \<and> e' = PDict kvs' \<and>
         map fst kvs' = map fst kvs \<and>
         (\<forall>k. k \<noteq> ''department'' \<longrightarrow> dict_get k kvs' = dict_get k kvs)) ([ann] @ [bob]) es')"
  using create_employees_list_frame [OF two_answers_fetch1 two_answers_fetch2 create_ann_bob]
    two_answers_fetch1 two_answers_fetch2 create_ann_bob
  by blast

text \<open>
  Claim C2, as stated: in every returned record, from either fetch, \<^verbatim>\<open>department\<close> is the
  flat name string of the original nested department mapping, never the mapping itself.
  The builder stores whatever value the mapping has under \<^verbatim>\<open>name\<close> and checks no type.
  As amended: in every returned record, from either fetch, the value under
  \<^verbatim>\<open>department\<close> is the value the original department mapping has under \<^verbatim>\<open>name\<close> (a
  string when that value is a string), and it is never the department mapping itself.
\<close>

theorem create_employees_list_department:
  assumes "retrieve_lucca_data tr env user_suffix (current_params flds) w = (Inr (PList cs), w1)"
      and "retrieve_lucca_data tr env user_suffix (former_params flds) w1 = (Inr (PList fs), w2)"
      and "create_employees_list tr env flds w = (Inr out, w')"
  shows "\<exists>es'. out = PList es' \<and>
           list_all2 (\<lambda>e e'. \<exists>kvs d v. e = PDict kvs \<and>
              dict_get ''department'' kvs = Some (PDict d) \<and> dict_get ''name'' d = Some v \<and>
              py_getitem e' ''department'' = Inr v \<and> v \<noteq> PDict d) (cs @ fs) es'"
proof -
  from create_employees_list_returns [OF assms] obtain es' where
    out: "out = PList es'" and
    all: "list_all2 (\<lambda>e e'. flatten_department e = Inr e') (cs @ fs) es'"
    by blast
  have "list_all2 (\<lambda>e e'. \<exists>kvs d v. e = PDict kvs \<and>
              dict_get ''department'' kvs = Some (PDict d) \<and> dict_get ''name'' d = Some v \<and>
              py_getitem e' ''department'' = Inr v \<and> v \<noteq> PDict d) (cs @ fs) es'"
    using all
  proof (rule list_all2_mono)
    fix e e'
    assume "flatten_department e = Inr e'"
    then obtain kvs d v where "e = PDict kvs" "dict_get ''department'' kvs = Some (PDict d)"
      "dict_get ''name'' d = Some v" "e' = PDict (dict_set ''department'' v kvs)"
      by (auto simp: flatten_department_Inr)
    then show "\<exists>kvs d v. e = PDict kvs \<and>
              dict_get ''department'' kvs = Some (PDict d) \<and> dict_get ''name'' d = Some v \<and>
              py_getitem e' ''department'' = Inr v \<and> v \<noteq> PDict d"
      by (simp add: dict_get_dict_set_same dict_get_neq)
  qed
  with out show ?thesis by blast
qed

theorem create_employees_list_department_witness:
  "retrieve_lucca_data (two_answers (PList [ann]) (PList [bob])) demo_env user_suffix
     (current_params demo_fields) world0 = (Inr (PList [ann]), world1) \<and>
   retrieve_lucca_data (two_answers (PList [ann]) (PList [bob])) demo_env user_suffix
     (former_params demo_fields) world1 = (Inr (PList [bob]), world2) \<and>
   create_employees_list (two_answers (PList [ann]) (PList [bob])) demo_env demo_fields world0 =
     (Inr (PList [ann_flat, bob_flat]), world2) \<and>
   (\<exists>es'. PList [ann_flat, bob_flat] = PList es' \<and>
      list_all2 (\<lambda>e e'. \<exists>kvs d v. e = PDict kvs \<and>
         dict_get ''department'' kvs = Some (PDict d) \<and> dict_get ''name'' d = Some v \<and>
         py_getitem e' ''department'' = Inr v \<and> v \<noteq> PDict d) ([ann] @ [bob]) es')"
  using create_employees_list_department [OF two_answers_fetch1 two_answers_fetch2 create_ann_bob]
    two_answers_fetch1 two_answers_fetch2 create_ann_bob
  by blast

text \<open>
  A department whose \<^verbatim>\<open>name\<close> is itself a mapping: the returned record carries a
  mapping, not a string, under \<^verbatim>\<open>department\<close>.
\<close>

theorem create_employees_list_department_counterexample:
  "create_employees_list (two_answers (PList [dee]) (PList [])) demo_env demo_fields world0 =
     (Inr (PList [PDict [(''department'', PDict [(''name'', PStr ''Eng'')])]]), world2) \<and>
   py_getitem (PDict [(''department'', PDict [(''name'', PStr ''Eng'')])]) ''department'' =
     Inr (PDict [(''name'', PStr ''Eng'')])"
  by (simp add: create_employees_list_lists [OF two_answers_fetch1 two_answers_fetch2]
      flatten_department_def dee_def)




text \<open>
  Claim C6: with URL_API_LUCCA set and a transport that answers the first request with
  the envelope of the single record of Ann, nested department Eng, and every later one
  with the envelope of the empty list, create_employees_list on the fields firstName and
  department returns exactly the one record of Ann with the department Eng.
\<close>

theorem create_employees_list_scenario:
  assumes "env ''URL_API_LUCCA'' = Some base"
  shows "fst (create_employees_list
           (\<lambda>n req. if n = 0
              then JsonBody (PDict [(''data'', PDict [(''items'',
                     PList [PDict [(''firstName'', PStr ''Ann''),
                                   (''department'', PDict [(''name'', PStr ''Eng'')])]])])])
              else JsonBody (PDict [(''data'', PDict [(''items'', PList [])])]))
           env (PList [PStr ''firstName'', PStr ''department'']) \<lparr>calls = [], stdout = []\<rparr>) =
         Inr (PList [PDict [(''firstName'', PStr ''Ann''), (''department'', PStr ''Eng'')]])"
  using assms
  by (simp add: create_employees_list_def retrieve_lucca_data_def Let_def flatten_department_def)

theorem create_employees_list_scenario_witness:
  "demo_env ''URL_API_LUCCA'' = Some ''https://example.ilucca.net'' \<and>
   fst (create_employees_list
           (\<lambda>n req. if n = 0
              then JsonBody (PDict [(''data'', PDict [(''items'',
                     PList [PDict [(''firstName'', PStr ''Ann''),
                                   (''department'', PDict [(''name'', PStr ''Eng'')])]])])])
              else JsonBody (PDict [(''data'', PDict [(''items'', PList [])])]))
           demo_env (PList [PStr ''firstName'', PStr ''department'']) \<lparr>calls = [], stdout = []\<rparr>) =
         Inr (PList [PDict [(''firstName'', PStr ''Ann''), (''department'', PStr ''Eng'')]])"
  using create_employees_list_scenario [where env = demo_env, OF demo_env_url] demo_env_url
  by simp

text \<open>
  Claim C7, as stated: the second fetch goes to the users endpoint of the first and
  carries exactly the parameters fields and dtContractEnd, the latter with the value
  \<^verbatim>\<open>not-equal null\<close>. The source passes the value \<^verbatim>\<open>notequal,null\<close>. As amended: with
  URL_API_LUCCA set, when the first fetch does not raise, create_employees_list issues
  exactly two requests, both to the base URL followed by \<^verbatim>\<open>/api/v3/users\<close>, the first with
  the parameter fields, the second with dtContractEnd = \<^verbatim>\<open>notequal,null\<close> and fields.
\<close>

theorem create_employees_list_second_fetch:
  assumes "env ''URL_API_LUCCA'' = Some base"
      and "fst (retrieve_lucca_data tr env user_suffix (current_params flds) w) = Inr cur"
  shows "calls (snd (create_employees_list tr env flds w)) =
           calls w @
             [\<lparr>url = base @ ''/api/v3/users'', headers = lucca_headers env,
               params = [(''fields'', flds)]\<rparr>,
              \<lparr>url = base @ ''/api/v3/users'', headers = lucca_headers env,
               params = [(''dtContractEnd'', PStr ''notequal,null''), (''fields'', flds)]\<rparr>]"
proof -
  obtain w1 where f1: "retrieve_lucca_data tr env user_suffix (current_params flds) w = (Inr cur, w1)"
    using assms(2) by (cases "retrieve_lucca_data tr env user_suffix (current_params flds) w") simp
  have c1: "calls w1 = calls w @ [\<lparr>url = base @ ''/api/v3/users'', headers = lucca_headers env,
               params = [(''fields'', flds)]\<rparr>]"
    using retrieve_lucca_data_calls [where env = env and tr = tr and url_suffix = user_suffix and ps = "current_params flds" and w = w, OF assms(1)] f1
    by (simp add: user_suffix_def current_params_def)
  have "snd (create_employees_list tr env flds w) =
          snd (retrieve_lucca_data tr env user_suffix (former_params flds) w1)"
    by (simp add: create_employees_list_def f1 split: prod.splits sum.splits)
  then show ?thesis
    using retrieve_lucca_data_calls [where env = env and tr = tr and url_suffix = user_suffix and ps = "former_params flds" and w = w1, OF assms(1)] c1
    by (simp add: user_suffix_def former_params_def)
qed

theorem create_employees_list_second_fetch_witness:
  "demo_env ''URL_API_LUCCA'' = Some ''https://example.ilucca.net'' \<and>
   fst (retrieve_lucca_data (two_answers (PList [ann]) (PList [bob])) demo_env user_suffix
     (current_params demo_fields) world0) = Inr (PList [ann]) \<and>
   calls (snd (create_employees_list (two_answers (PList [ann]) (PList [bob])) demo_env
     demo_fields world0)) =
     calls world0 @
       [\<lparr>url = ''https://example.ilucca.net'' @ ''/api/v3/users'', headers = lucca_headers demo_env,
         params = [(''fields'', demo_fields)]\<rparr>,
        \<lparr>url = ''https://example.ilucca.net'' @ ''/api/v3/users'', headers = lucca_headers demo_env,
         params = [(''dtContractEnd'', PStr ''notequal,null''), (''fields'', demo_fields)]\<rparr>]"
proof -
  have f1: "fst (retrieve_lucca_data (two_answers (PList [ann]) (PList [bob])) demo_env user_suffix
     (current_params demo_fields) world0) = Inr (PList [ann])"
    by (simp add: two_answers_fetch1)
  from create_employees_list_second_fetch [where env = demo_env, OF demo_env_url f1] demo_env_url f1
  show ?thesis by simp
qed

text \<open>The parameters of the second request on a concrete run.\<close>

theorem create_employees_list_former_params_counterexample:
  "params (calls (snd (create_employees_list (two_answers (PList [ann]) (PList [bob])) demo_env
      demo_fields world0)) ! 1) =
     [(''dtContractEnd'', PStr ''notequal,null''), (''fields'', demo_fields)] \<and>
   dict_get ''dtContractEnd'' (params (calls (snd (create_employees_list
      (two_answers (PList [ann]) (PList [bob])) demo_env demo_fields world0)) ! 1)) \<noteq>
     Some (PStr ''not-equal null'')"
  by (simp add: create_ann_bob world2_def users_request_def former_params_def)

section \<open>The departments builder\<close>

text \<open>
  Claim C5: create_departments_list is one call of retrieve_lucca_data on the departments
  endpoint with the single parameter fields, and returns what that call returns. With
  URL_API_LUCCA set, when the transport answers the request with a body whose
  \<^verbatim>\<open>data.items\<close> is \<open>items\<close>, the result is \<open>items\<close> itself, with its order, keys and
  values, and exactly one request has been issued, to the base URL followed by
  \<^verbatim>\<open>/api/v3/departments\<close>.
\<close>

theorem create_departments_list_passthrough:
  assumes "env ''URL_API_LUCCA'' = Some base"
      and "tr (length (calls w))
             \<lparr>url = base @ ''/api/v3/departments'', headers = lucca_headers env,
              params = [(''fields'', flds)]\<rparr> = JsonBody body"
      and "py_getitem body ''data'' = Inr d"
      and "py_getitem d ''items'' = Inr items"
  shows "create_departments_list tr env flds w =
           retrieve_lucca_data tr env ''/api/v3/departments'' [(''fields'', flds)] w \<and>
         create_departments_list tr env flds w =
           (Inr items,
            w\<lparr>calls := calls w @
                [\<lparr>url = base @ ''/api/v3/departments'', headers = lucca_headers env,
                  params = [(''fields'', flds)]\<rparr>]\<rparr>)"
  using assms
  by (simp add: create_departments_list_def departments_suffix_def retrieve_lucca_data_def Let_def)

theorem create_departments_list_passthrough_witness:
  "demo_env ''URL_API_LUCCA'' = Some ''https://example.ilucca.net'' \<and>
   create_departments_list (two_answers demo_departments demo_departments) demo_env
     (PList [PStr ''name'']) world0 =
   retrieve_lucca_data (two_answers demo_departments demo_departments) demo_env
     ''/api/v3/departments'' [(''fields'', PList [PStr ''name''])] world0 \<and>
   create_departments_list (two_answers demo_departments demo_departments) demo_env
     (PList [PStr ''name'']) world0 =
   (Inr demo_departments,
    world0\<lparr>calls := calls world0 @
        [\<lparr>url = ''https://example.ilucca.net'' @ ''/api/v3/departments'',
          headers = lucca_headers demo_env,
          params = [(''fields'', PList [PStr ''name''])]\<rparr>]\<rparr>)"
proof -
  have b: "two_answers demo_departments demo_departments (length (calls world0))
             \<lparr>url = ''https://example.ilucca.net'' @ ''/api/v3/departments'',
              headers = lucca_headers demo_env,
              params = [(''fields'', PList [PStr ''name''])]\<rparr> =
           JsonBody (PDict [(''data'', PDict [(''items'', demo_departments)])])"
    by (simp add: two_answers_def world0_def)
  have d: "py_getitem (PDict [(''data'', PDict [(''items'', demo_departments)])]) ''data'' =
             Inr (PDict [(''items'', demo_departments)])"
    by simp
  have i: "py_getitem (PDict [(''items'', demo_departments)]) ''items'' = Inr demo_departments"
    by simp
  from create_departments_list_passthrough [where env = demo_env
      and tr = "two_answers demo_departments demo_departments" and w = world0,
      OF demo_env_url b d i] demo_env_url
  show ?thesis by blast
qed

section \<open>The CSV writer\<close>

text \<open>
  Claim C8: for the records \<^verbatim>\<open>[{"a":1},{"a":2,"b":5}]\<close> the table written has the header
  cells a and b, a first data row whose b cell is the empty string, and two cells in every
  row (no column of row numbers); the first line of the file is \<^verbatim>\<open>a,b\<close>.
\<close>

theorem save_to_csv_missing_column:
  "to_csv_rows str_of False (DataFrame [[(''a'', PInt 1)], [(''a'', PInt 2), (''b'', PInt 5)]]) =
     [[''a'', ''b''], [str_of (PInt 1), ''''], [str_of (PInt 2), str_of (PInt 5)]] \<and>
   save_to_csv str_of [[(''a'', PInt 1)], [(''a'', PInt 2), (''b'', PInt 5)]] name fs name =
     Some [''a,b'', csv_line [str_of (PInt 1), ''''], csv_line [str_of (PInt 2), str_of (PInt 5)]] \<and>
   csv_line [str_of (PInt 1), ''''] = csv_field (str_of (PInt 1)) @ '',''"
  by (simp add: save_to_csv_def to_csv_rows_def DataFrame_def union_keys_def csv_line_def
      csv_field_def upt_rec)

end
